theory Spec2Isabelle
  imports Main
begin

section \<open>Python strings\<close>

text \<open>
  A Python \<open>str\<close> is a sequence of Unicode code points; a code point is modelled as a
  natural number, so \<open>length\<close> counts what Python's \<open>len\<close> counts. \<open>py\<close> turns an
  Isabelle literal into such a string (one code point per character).
\<close>

type_synonym pystr = "nat list"

definition py :: "string \<Rightarrow> pystr" where
  "py s = map of_char s"

text \<open>
  \<open>str.strip()\<close> with no argument removes the characters for which CPython's
  \<open>Py_UNICODE_ISSPACE\<close> holds: U+0009..U+000D, U+001C..U+0020, U+0085, U+00A0, U+1680,
  U+2000..U+200A, U+2028, U+2029, U+202F, U+205F and U+3000.
\<close>

definition py_isspace :: "nat \<Rightarrow> bool" where
  "py_isspace c \<longleftrightarrow>
     (9 \<le> c \<and> c \<le> 13) \<or> (28 \<le> c \<and> c \<le> 32) \<or> c = 133 \<or> c = 160 \<or>
     c = 5760 \<or> (8192 \<le> c \<and> c \<le> 8202) \<or> c = 8232 \<or> c = 8233 \<or>
     c = 8239 \<or> c = 8287 \<or> c = 12288"

definition py_strip :: "pystr \<Rightarrow> pystr" where
  "py_strip s = rev (dropWhile py_isspace (rev (dropWhile py_isspace s)))"

text \<open>
  \<open>s.replace(old, new)\<close> where \<open>old\<close> is a single character, as in every call of the
  source: each occurrence of \<open>old\<close> becomes the string \<open>new\<close> (possibly empty).
\<close>

definition py_replace :: "nat \<Rightarrow> pystr \<Rightarrow> pystr \<Rightarrow> pystr" where
  "py_replace old new s = concat (map (\<lambda>c. if c = old then new else [c]) s)"

text \<open>
  \<open>s.split(sep)\<close> for a single-character separator: the pieces between the separators,
  in order; the result of splitting the empty string is \<open>['']\<close>.
\<close>

fun py_split :: "nat \<Rightarrow> pystr \<Rightarrow> pystr list" where
  "py_split sep [] = [[]]"
| "py_split sep (c # cs) =
     (if c = sep then [] # py_split sep cs
      else (case py_split sep cs of
              [] \<Rightarrow> [[c]]
            | w # ws \<Rightarrow> (c # w) # ws))"

text \<open>
  \<open>c.isalnum()\<close> for one character: true when the character is a letter or has a numeric
  value in the Unicode database. The table is written out for U+0000..U+00FF (the ASCII
  letters and digits, the ordinal indicators, the micro sign, the superscript digits, the
  vulgar fractions and the Latin-1 letters); the database beyond U+00FF is the
  parameter \<open>U\<close>.
\<close>

definition latin1_isalnum :: "nat \<Rightarrow> bool" where
  "latin1_isalnum c \<longleftrightarrow>
     (48 \<le> c \<and> c \<le> 57) \<or> (65 \<le> c \<and> c \<le> 90) \<or> (97 \<le> c \<and> c \<le> 122) \<or>
     c = 170 \<or> c = 178 \<or> c = 179 \<or> c = 181 \<or> c = 185 \<or> c = 186 \<or>
     (188 \<le> c \<and> c \<le> 190) \<or> (192 \<le> c \<and> c \<le> 214) \<or> (216 \<le> c \<and> c \<le> 246) \<or>
     (248 \<le> c \<and> c \<le> 255)"

definition py_isalnum :: "(nat \<Rightarrow> bool) \<Rightarrow> nat \<Rightarrow> bool" where
  "py_isalnum U c = (if c < 256 then latin1_isalnum c else U c)"

text \<open>
  Exceptions: \<open>IndexError\<close> of a list subscript, and an exception raised inside a library
  call, of which the source only ever uses \<open>str(e)\<close>.
\<close>

datatype exn = IndexError | Raised pystr

fun str_exn :: "exn \<Rightarrow> pystr" where
  "str_exn IndexError = py ''list index out of range''"
| "str_exn (Raised m) = m"

text \<open>The subscript \<open>xs[0]\<close>.\<close>

definition item0 :: "'a list \<Rightarrow> exn + 'a" where
  "item0 xs = (case xs of [] \<Rightarrow> Inl IndexError | x # _ \<Rightarrow> Inr x)"


section \<open>Identifier sanitizers\<close>

text \<open>
  The expression applied to each column label in \<open>sanitize_column_names\<close>:
  \<^verbatim>\<open>str(c).strip().replace(" ", "_").replace("-", "_").replace(".", "_")
        .replace("/", "_").replace("(", "").replace(")", "")\<close>
  The labels that \<open>read_csv\<close> produces from a header row are strings, on which \<open>str\<close>
  is the identity. Code points: space 32, hyphen 45, period 46, slash 47, underscore 95,
  parentheses 40 and 41.
\<close>

definition sanitize_column :: "pystr \<Rightarrow> pystr" where
  "sanitize_column c =
     py_replace 41 [] (py_replace 40 [] (py_replace 47 [95] (py_replace 46 [95]
       (py_replace 45 [95] (py_replace 32 [95] (py_strip c))))))"

text \<open>A data frame: its column labels in order, and its rows of cell values.\<close>

record 'v dataframe =
  columns :: "pystr list"
  rows :: "'v list list"

definition sanitize_column_names :: "'v dataframe \<Rightarrow> 'v dataframe" where
  "sanitize_column_names df = df\<lparr>columns := map sanitize_column (columns df)\<rparr>"

text \<open>
  The table name computed at the start of \<open>load_data_to_db\<close>:
  \<^verbatim>\<open>table_name = uploaded_file.name.split('.')[0]
  table_name = "".join([c for c in table_name if c.isalnum() or c == '_'])\<close>
\<close>

definition table_name :: "(nat \<Rightarrow> bool) \<Rightarrow> pystr \<Rightarrow> exn + pystr" where
  "table_name U fname =
     (case item0 (py_split 46 fname) of
        Inl e \<Rightarrow> Inl e
      | Inr stem \<Rightarrow> Inr (filter (\<lambda>c. py_isalnum U c \<or> c = 95) stem))"


section \<open>The session's store and the library calls\<close>

text \<open>
  The in-memory SQLite database of a session, as the rows of \<open>sqlite_master\<close> that are
  tables: table name and table, in the store's order.
\<close>

type_synonym 'v db = "(pystr \<times> 'v dataframe) list"

text \<open>
  The calls into pandas and sqlite3 are parameters of the model:
  \<^item> \<open>alnum_ext\<close>: the Unicode database beyond U+00FF, for \<open>isalnum\<close>;
  \<^item> \<open>read_csv\<close>: the parser, giving the message of the exception it raises or the frame;
  \<^item> \<open>to_sql_raises\<close>: whether \<open>DataFrame.to_sql\<close> raises for this table name, frame
    and store, with the message and the store it leaves behind;
  \<^item> \<open>read_sql_query\<close>: the query engine, giving the message of the exception it raises
    or the result frame, and the store after the call;
  \<^item> \<open>table_info_raises\<close>: whether \<open>pd.read_sql\<close> raises on \<open>PRAGMA table_info(name)\<close>,
    where the table name stands unquoted, with the message.
\<close>

record 'v libs =
  alnum_ext :: "nat \<Rightarrow> bool"
  read_csv :: "nat list \<Rightarrow> pystr + 'v dataframe"
  to_sql_raises :: "pystr \<Rightarrow> 'v dataframe \<Rightarrow> 'v db \<Rightarrow> (pystr \<times> 'v db) option"
  read_sql_query :: "pystr \<Rightarrow> 'v db \<Rightarrow> (pystr + 'v dataframe) \<times> 'v db"
  table_info_raises :: "pystr \<Rightarrow> 'v db \<Rightarrow> pystr option"

text \<open>
  \<^verbatim>\<open>df.to_sql(table_name, conn, if_exists='replace', index=False)\<close>: when the call does
  not raise, a table of that name is dropped if there is one and the frame is stored
  under the name, with its own columns only (no index column).
\<close>

definition to_sql_replace ::
  "'v libs \<Rightarrow> pystr \<Rightarrow> 'v dataframe \<Rightarrow> 'v db \<Rightarrow> (exn + unit) \<times> 'v db" where
  "to_sql_replace L tn df conn =
     (case to_sql_raises L tn df conn of
        Some (m, conn') \<Rightarrow> (Inl (Raised m), conn')
      | None \<Rightarrow> (Inr (), filter (\<lambda>(n, _). n \<noteq> tn) conn @ [(tn, df)]))"

record uploaded_file =
  name :: pystr
  content :: "nat list"

text \<open>
  \<open>load_data_to_db\<close> returns the pair \<open>(table_name, None)\<close> or \<open>(None, str(e))\<close>; the
  second component of the model's result is the store after the call. Every step of
  the body is inside the \<open>try\<close>.
\<close>

definition load_data_to_db ::
  "'v libs \<Rightarrow> uploaded_file \<Rightarrow> 'v db \<Rightarrow> (pystr option \<times> pystr option) \<times> 'v db" where
  "load_data_to_db L uploaded_file conn =
     (case table_name (alnum_ext L) (name uploaded_file) of
        Inl e \<Rightarrow> ((None, Some (str_exn e)), conn)
      | Inr tn \<Rightarrow>
          (case read_csv L (content uploaded_file) of
             Inl m \<Rightarrow> ((None, Some (str_exn (Raised m))), conn)
           | Inr df \<Rightarrow>
               (case to_sql_replace L tn (sanitize_column_names df) conn of
                  (Inl e, conn') \<Rightarrow> ((None, Some (str_exn e)), conn')
                | (Inr _, conn') \<Rightarrow> ((Some tn, None), conn'))))"

text \<open>
  The sidebar loop over the uploaded files. A file whose name is in
  \<open>uploaded_files_list\<close> is skipped; \<open>if t_name:\<close> is false for \<open>None\<close> and for the
  empty string. The notices are the calls of \<open>st.toast\<close> and \<open>st.error\<close>.
\<close>

datatype notice = Created pystr | Failed "pystr option"

fun process_files ::
  "'v libs \<Rightarrow> uploaded_file list \<Rightarrow> pystr list \<Rightarrow> 'v db \<Rightarrow> (pystr list \<times> 'v db) \<times> notice list" where
  "process_files L [] lst conn = ((lst, conn), [])"
| "process_files L (file # files) lst conn =
     (if name file \<notin> set lst then
        (case load_data_to_db L file conn of
           ((t_name, error), conn') \<Rightarrow>
             (case t_name of
                Some (c # cs) \<Rightarrow>
                  (case process_files L files (lst @ [name file]) conn' of
                     (r, ns) \<Rightarrow> (r, Created (c # cs) # ns))
              | _ \<Rightarrow>
                  (case process_files L files lst conn' of
                     (r, ns) \<Rightarrow> (r, Failed error # ns))))
      else process_files L files lst conn)"

text \<open>
  \<open>st.session_state\<close>: a key that is absent is \<open>None\<close>. The first lines of the script
  create what is missing, a fresh in-memory database and an empty list, and bind \<open>conn\<close>.
\<close>

record 'v session_state =
  db_conn :: "'v db option"
  uploaded_files_list :: "pystr list option"

definition session_start :: "'v session_state \<Rightarrow> 'v session_state \<times> 'v db" where
  "session_start st =
     (let c = (case db_conn st of None \<Rightarrow> [] | Some c \<Rightarrow> c);
          l = (case uploaded_files_list st of None \<Rightarrow> [] | Some l \<Rightarrow> l)
      in (\<lparr>db_conn = Some c, uploaded_files_list = Some l\<rparr>, c))"

text \<open>
  The handler of the button that clears the database: the connection is closed and its
  key deleted, the list is emptied, and the script runs again from its first line.
\<close>

definition clear_database :: "'v session_state \<Rightarrow> 'v session_state" where
  "clear_database st = \<lparr>db_conn = None, uploaded_files_list = Some []\<rparr>"

text \<open>
  The schema viewer, inside its own \<open>try\<close>: the table names of \<open>sqlite_master\<close>, and for
  each, in turn, an expander with the column names that \<open>PRAGMA table_info\<close> lists (for
  a name that is no table, none). The table name is put into the statement as it is, so
  the call can raise; the expanders of the tables before it are shown by then, and the
  exception is shown with \<open>st.error\<close> after the words of \<open>db_error_prefix\<close>. With no table
  the viewer shows a notice instead. \<open>describe\<close> is the mapping the viewer goes through:
  the expanders it reaches, and the error that stopped it, if any.
\<close>

definition list_tables :: "'v db \<Rightarrow> pystr list" where
  "list_tables conn = map fst conn"

definition table_info :: "'v db \<Rightarrow> pystr \<Rightarrow> pystr list" where
  "table_info conn tn = (case map_of conn tn of None \<Rightarrow> [] | Some t \<Rightarrow> columns t)"

fun show_tables ::
  "'v libs \<Rightarrow> 'v db \<Rightarrow> pystr list \<Rightarrow> (pystr \<times> pystr list) list \<times> pystr option" where
  "show_tables L conn [] = ([], None)"
| "show_tables L conn (tn # tns) =
     (case table_info_raises L tn conn of
        Some m \<Rightarrow> ([], Some m)
      | None \<Rightarrow>
          (case show_tables L conn tns of
             (es, err) \<Rightarrow> ((tn, table_info conn tn) # es, err)))"

definition describe :: "'v libs \<Rightarrow> 'v db \<Rightarrow> (pystr \<times> pystr list) list \<times> pystr option" where
  "describe L conn = show_tables L conn (list_tables conn)"

definition db_error_prefix :: pystr where
  "db_error_prefix = py ''DB Error: ''"

datatype schema_view =
  NoTablesFound
| Expanders "(pystr \<times> pystr list) list"
| DbError "(pystr \<times> pystr list) list" pystr

definition schema_viewer :: "'v libs \<Rightarrow> 'v db \<Rightarrow> schema_view" where
  "schema_viewer L conn =
     (if list_tables conn \<noteq> [] then
        (case describe L conn of
           (es, None) \<Rightarrow> Expanders es
         | (es, Some m) \<Rightarrow> DbError es (db_error_prefix @ m))
      else NoTablesFound)"

text \<open>
  One run of the script from its first line to the schema viewer, for the files that
  the uploader holds during that run.
\<close>

definition sidebar ::
  "'v libs \<Rightarrow> uploaded_file list \<Rightarrow> 'v session_state \<Rightarrow>
     ('v session_state \<times> notice list) \<times> schema_view" where
  "sidebar L uploaded_files st =
     (case session_start st of
        (st1, conn) \<Rightarrow>
          (case process_files L uploaded_files
                  (case uploaded_files_list st1 of None \<Rightarrow> [] | Some l \<Rightarrow> l) conn of
             ((lst, conn'), ns) \<Rightarrow>
               ((\<lparr>db_conn = Some conn', uploaded_files_list = Some lst\<rparr>, ns),
                schema_viewer L conn')))"

text \<open>
  The query runner: nothing runs unless the button was pressed or the query is not
  empty. An exception is shown with \<open>st.error\<close> under a fixed prefix (a cross mark,
  U+274C, and the words of \<open>sql_error_prefix\<close>); the rendering of a result is not part
  of the model.
\<close>

definition sql_error_prefix :: pystr where
  "sql_error_prefix = 10060 # py '' SQL Error: ''"

datatype 'v outcome = Results "'v dataframe" | SqlError pystr

definition execute :: "'v libs \<Rightarrow> bool \<Rightarrow> pystr \<Rightarrow> 'v db \<Rightarrow> 'v outcome option \<times> 'v db" where
  "execute L run_btn query conn =
     (if run_btn \<or> query \<noteq> [] then
        (case read_sql_query L query conn of
           (Inl m, conn') \<Rightarrow> (Some (SqlError (sql_error_prefix @ str_exn (Raised m))), conn')
         | (Inr results_df, conn') \<Rightarrow> (Some (Results results_df), conn'))
      else (None, conn))"


section \<open>The specification's wording, for comparison\<close>

text \<open>
  The specification describes the table name as the file identifier with the text
  after the final period stripped, then restricted to alphanumerics and underscore.
  \<open>spec_table_name\<close> follows these words; it is compared with \<open>table_name\<close> below.
\<close>

definition spec_strip_extension :: "pystr \<Rightarrow> pystr" where
  "spec_strip_extension s =
     (if 46 \<in> set s then rev (tl (dropWhile (\<lambda>c. c \<noteq> 46) (rev s))) else s)"

definition spec_table_name :: "(nat \<Rightarrow> bool) \<Rightarrow> pystr \<Rightarrow> pystr" where
  "spec_table_name U s = filter (\<lambda>c. py_isalnum U c \<or> c = 95) (spec_strip_extension s)"

text \<open>The character set \<open>[A-Za-z0-9_]\<close> of the specification.\<close>

definition ascii_ident_char :: "nat \<Rightarrow> bool" where
  "ascii_ident_char c \<longleftrightarrow>
     (48 \<le> c \<and> c \<le> 57) \<or> (65 \<le> c \<and> c \<le> 90) \<or> (97 \<le> c \<and> c \<le> 122) \<or> c = 95"




section \<open>An instance of the library parameters\<close>

text \<open>
  To evaluate the model on concrete inputs the library parameters are given values
  that follow pandas and SQLite on the inputs used below.
  \<^item> \<open>demo_alnum_ext\<close>: beyond U+00FF, the letters and digits of the scripts listed in it
    are alphanumeric, and no other character is.
  \<^item> \<open>simple_read_csv\<close> reads unquoted comma-separated text, the first non-empty line
    being the header. An empty header is named \<open>Unnamed: i\<close> after its position, and a
    header that repeats an earlier one k times gets the suffix \<open>.k\<close>. A column all of
    whose cells are decimal integers is a column of integers, any other column keeps
    the text of its cells. With no line at all the call fails with the message pandas
    gives for an empty file.
  \<^item> \<open>sqlite_to_sql_raises\<close>: \<open>to_sql\<close> raises for an empty table or column name, before
    it touches the store; for a table name that differs from a table of the store only
    in the case of ASCII letters; and for a column name that repeats an earlier one,
    the case of ASCII letters set aside, by which time a table of the name has been
    dropped.
  \<^item> \<open>demo_table_info_raises\<close>: \<open>PRAGMA table_info(name)\<close> is a syntax error when the
    name is one of the reserved words listed.
  \<^item> \<open>two_statement_engine\<close> understands \<open>SELECT * FROM t\<close> and \<open>DROP TABLE t\<close>. As with
    \<open>pandas.read_sql_query\<close> on a sqlite3 connection, a statement on a table that does
    not exist fails and leaves the store as it was, while \<open>DROP TABLE\<close> on an existing
    table is executed by the cursor and the call then raises, because the cursor of a
    statement without a result set has no column description; the same happens, with
    nothing executed, for a query of whitespace only. Any other text is answered as a
    text that is no SQL is.
\<close>

definition demo_alnum_ext :: "nat \<Rightarrow> bool" where
  "demo_alnum_ext c \<longleftrightarrow>
     (256 \<le> c \<and> c \<le> 687) \<or>
     (910 \<le> c \<and> c \<le> 929) \<or> (931 \<le> c \<and> c \<le> 974) \<or>
     (1024 \<le> c \<and> c \<le> 1153) \<or> (1162 \<le> c \<and> c \<le> 1279) \<or>
     (1329 \<le> c \<and> c \<le> 1366) \<or> (1377 \<le> c \<and> c \<le> 1414) \<or>
     (1488 \<le> c \<and> c \<le> 1514) \<or>
     (1569 \<le> c \<and> c \<le> 1610) \<or> (1632 \<le> c \<and> c \<le> 1641) \<or>
     (2309 \<le> c \<and> c \<le> 2361) \<or> (2406 \<le> c \<and> c \<le> 2415) \<or>
     (3585 \<le> c \<and> c \<le> 3632) \<or> (3664 \<le> c \<and> c \<le> 3673) \<or>
     (12353 \<le> c \<and> c \<le> 12438) \<or> (12449 \<le> c \<and> c \<le> 12538) \<or>
     (13312 \<le> c \<and> c \<le> 19893) \<or> (19968 \<le> c \<and> c \<le> 40869) \<or>
     (44032 \<le> c \<and> c \<le> 55203) \<or>
     (65296 \<le> c \<and> c \<le> 65305) \<or> (65313 \<le> c \<and> c \<le> 65338) \<or>
     (65345 \<le> c \<and> c \<le> 65370)"

datatype cell = IntCell int | TextCell pystr

definition is_digit :: "nat \<Rightarrow> bool" where
  "is_digit c \<longleftrightarrow> 48 \<le> c \<and> c \<le> 57"

definition int_text :: "pystr \<Rightarrow> bool" where
  "int_text s =
     (case s of
        [] \<Rightarrow> False
      | c # cs \<Rightarrow> if c = 45 then cs \<noteq> [] \<and> list_all is_digit cs else list_all is_digit (c # cs))"

definition nat_of_digits :: "pystr \<Rightarrow> nat" where
  "nat_of_digits s = foldl (\<lambda>a c. 10 * a + (c - 48)) 0 s"

definition int_of_text :: "pystr \<Rightarrow> int" where
  "int_of_text s =
     (case s of
        [] \<Rightarrow> 0
      | c # cs \<Rightarrow> if c = 45 then - int (nat_of_digits cs) else int (nat_of_digits (c # cs)))"

fun digits_of :: "nat \<Rightarrow> pystr" where
  "digits_of n = (if n < 10 then [48 + n] else digits_of (n div 10) @ [48 + n mod 10])"

fun renamed :: "pystr list \<Rightarrow> pystr list \<Rightarrow> pystr list" where
  "renamed seen [] = []"
| "renamed seen (h # hs) =
     (if count_list seen h = 0 then h else h @ 46 # digits_of (count_list seen h)) #
     renamed (seen @ [h]) hs"

definition header_names :: "pystr list \<Rightarrow> pystr list" where
  "header_names hs =
     renamed [] (map (\<lambda>(i, h). if h = [] then py ''Unnamed: '' @ digits_of i else h)
                   (enumerate 0 hs))"

definition int_columns :: "nat \<Rightarrow> pystr list list \<Rightarrow> bool list" where
  "int_columns n rs = map (\<lambda>j. list_all (\<lambda>r. j < length r \<and> int_text (r ! j)) rs) [0..<n]"

definition typed_row :: "bool list \<Rightarrow> pystr list \<Rightarrow> cell list" where
  "typed_row ints r =
     map (\<lambda>(j, s). if j < length ints \<and> ints ! j then IntCell (int_of_text s) else TextCell s)
       (enumerate 0 r)"

definition simple_read_csv :: "nat list \<Rightarrow> pystr + cell dataframe" where
  "simple_read_csv b =
     (case map (py_split 44) (filter (\<lambda>l. l \<noteq> []) (py_split 10 b)) of
        [] \<Rightarrow> Inl (py ''No columns to parse from file'')
      | h # rs \<Rightarrow>
          Inr \<lparr>columns = header_names h,
               rows = map (typed_row (int_columns (length h) rs)) rs\<rparr>)"

definition ascii_lower :: "nat \<Rightarrow> nat" where
  "ascii_lower c = (if 65 \<le> c \<and> c \<le> 90 then c + 32 else c)"

fun repeated_column :: "pystr list \<Rightarrow> pystr list \<Rightarrow> pystr option" where
  "repeated_column seen [] = None"
| "repeated_column seen (cn # cns) =
     (if map ascii_lower cn \<in> set seen then Some cn
      else repeated_column (map ascii_lower cn # seen) cns)"

definition sqlite_to_sql_raises ::
  "pystr \<Rightarrow> 'v dataframe \<Rightarrow> 'v db \<Rightarrow> (pystr \<times> 'v db) option" where
  "sqlite_to_sql_raises tn df conn =
     (if tn = [] \<or> [] \<in> set (columns df) then
        Some (py ''Empty table or column name specified'', conn)
      else if tn \<notin> set (list_tables conn) \<and>
              map ascii_lower tn \<in> set (map (map ascii_lower) (list_tables conn)) then
        Some (py ''table '' @ 34 # tn @ 34 # py '' already exists'', conn)
      else
        (case repeated_column [] (columns df) of
           Some cn \<Rightarrow>
             Some (py ''duplicate column name: '' @ cn, filter (\<lambda>(n, _). n \<noteq> tn) conn)
         | None \<Rightarrow> None))"

definition execution_failed :: "pystr \<Rightarrow> pystr \<Rightarrow> pystr" where
  "execution_failed q m = py ''Execution failed on sql '' @ 39 # q @ 39 # py '': '' @ m"

definition reserved_words :: "pystr list" where
  "reserved_words =
     map py [''order'', ''select'', ''table'', ''group'', ''from'', ''where'', ''index'',
             ''values'', ''insert'', ''update'', ''delete'', ''create'', ''drop'']"

definition demo_table_info_raises :: "pystr \<Rightarrow> 'v db \<Rightarrow> pystr option" where
  "demo_table_info_raises tn conn =
     (if map ascii_lower tn \<in> set reserved_words then
        Some (execution_failed (py ''PRAGMA table_info('' @ tn @ py '')'')
                (py ''near '' @ 34 # tn @ 34 # py '': syntax error''))
      else None)"

fun strip_prefix :: "pystr \<Rightarrow> pystr \<Rightarrow> pystr option" where
  "strip_prefix [] s = Some s"
| "strip_prefix (p # ps) [] = None"
| "strip_prefix (p # ps) (c # cs) = (if p = c then strip_prefix ps cs else None)"

definition no_result_set :: pystr where
  "no_result_set = 39 # py ''NoneType'' @ 39 # py '' object is not iterable''"

definition two_statement_engine :: "pystr \<Rightarrow> 'v db \<Rightarrow> (pystr + 'v dataframe) \<times> 'v db" where
  "two_statement_engine q conn =
     (if list_all py_isspace q then (Inl no_result_set, conn)
      else
        (case strip_prefix (py ''SELECT * FROM '') q of
           Some tn \<Rightarrow>
             (case map_of conn tn of
                None \<Rightarrow> (Inl (execution_failed q (py ''no such table: '' @ tn)), conn)
              | Some t \<Rightarrow> (Inr t, conn))
         | None \<Rightarrow>
             (case strip_prefix (py ''DROP TABLE '') q of
                Some tn \<Rightarrow>
                  (case map_of conn tn of
                     None \<Rightarrow> (Inl (execution_failed q (py ''no such table: '' @ tn)), conn)
                   | Some t \<Rightarrow> (Inl no_result_set, filter (\<lambda>(n, _). n \<noteq> tn) conn))
              | None \<Rightarrow> (Inl (execution_failed q (py ''syntax error'')), conn))))"

definition demo_libs :: "cell libs" where
  "demo_libs =
     \<lparr>alnum_ext = demo_alnum_ext, read_csv = simple_read_csv,
      to_sql_raises = sqlite_to_sql_raises, read_sql_query = two_statement_engine,
      table_info_raises = demo_table_info_raises\<rparr>"

text \<open>A store with two tables, and a second upload of \<open>orders.csv\<close> with other content.\<close>

definition store_before :: "cell db" where
  "store_before =
     [(py ''orders'',
       \<lparr>columns = [py ''Order_Date'', py ''Amount''],
        rows = [[TextCell (py ''2024-01-01''), IntCell 10],
                [TextCell (py ''2024-01-02''), IntCell 20]]\<rparr>),
      (py ''customers'', \<lparr>columns = [py ''id''], rows = [[IntCell 1]]\<rparr>)]"

definition orders_upload :: uploaded_file where
  "orders_upload = \<lparr>name = py ''orders.csv'', content = py ''Day,Qty (kg)\<newline>Mon,7\<newline>''\<rparr>"

definition store_after :: "cell db" where
  "store_after =
     [(py ''customers'', \<lparr>columns = [py ''id''], rows = [[IntCell 1]]\<rparr>),
      (py ''orders'',
       \<lparr>columns = [py ''Day'', py ''Qty_kg''], rows = [[TextCell (py ''Mon''), IntCell 7]]\<rparr>)]"


section \<open>Facts about the string operations\<close>

lemma py_replace_one: "py_replace old [new] s = map (\<lambda>c. if c = old then new else c) s"
  by (induction s) (simp_all add: py_replace_def)

lemma py_replace_none: "py_replace old [] s = filter (\<lambda>c. c \<noteq> old) s"
  by (induction s) (simp_all add: py_replace_def)

lemma replace_chain:
  "(\<lambda>c. if c = 47 then 95 else c) \<circ> ((\<lambda>c. if c = 46 then 95 else c) \<circ>
     ((\<lambda>c. if c = 45 then 95 else c) \<circ> (\<lambda>c. if c = 32 then 95 else c))) =
   (\<lambda>c::nat. if c = 32 \<or> c = 45 \<or> c = 46 \<or> c = 47 then 95 else c)"
  by (rule ext) simp

lemma sanitize_column_map_filter:
  "sanitize_column s =
     filter (\<lambda>c. c \<noteq> 40 \<and> c \<noteq> 41)
       (map (\<lambda>c. if c = 32 \<or> c = 45 \<or> c = 46 \<or> c = 47 then 95 else c) (py_strip s))"
  unfolding sanitize_column_def py_replace_one py_replace_none map_map replace_chain
  by (simp add: conj_commute)

lemma sanitize_column_clean: "set (sanitize_column s) \<inter> {32, 45, 46, 47, 40, 41} = {}"
  by (auto simp: sanitize_column_map_filter)

lemma py_strip_split:
  "s = takeWhile py_isspace s @ py_strip s @
       rev (takeWhile py_isspace (rev (dropWhile py_isspace s)))"
proof -
  let ?d = "dropWhile py_isspace s"
  have "rev ?d = takeWhile py_isspace (rev ?d) @ dropWhile py_isspace (rev ?d)"
    by simp
  then have "?d = rev (dropWhile py_isspace (rev ?d)) @ rev (takeWhile py_isspace (rev ?d))"
    by (metis rev_append rev_rev_ident)
  then show ?thesis
    unfolding py_strip_def by (metis takeWhile_dropWhile_id)
qed

lemma py_strip_trimmed:
  "\<exists>l r. s = l @ py_strip s @ r \<and> list_all py_isspace l \<and> list_all py_isspace r"
proof -
  have "list_all py_isspace (takeWhile py_isspace s)"
    by (auto simp: list_all_iff dest: set_takeWhileD)
  moreover have "list_all py_isspace (rev (takeWhile py_isspace (rev (dropWhile py_isspace s))))"
    by (auto simp: list_all_iff dest: set_takeWhileD)
  ultimately show ?thesis using py_strip_split[of s] by blast
qed

lemma py_strip_ends:
  assumes "py_strip s \<noteq> []"
  shows "\<not> py_isspace (hd (py_strip s)) \<and> \<not> py_isspace (last (py_strip s))"
proof -
  let ?d = "dropWhile py_isspace s"
  let ?e = "dropWhile py_isspace (rev ?d)"
  from assms have e: "?e \<noteq> []" by (simp add: py_strip_def)
  then have "\<not> py_isspace (hd ?e)" by (rule hd_dropWhile)
  then have l: "\<not> py_isspace (last (py_strip s))"
    using e by (simp add: py_strip_def last_rev)
  from e have "rev ?d \<noteq> []" by (metis dropWhile.simps(1))
  then have d: "?d \<noteq> []" by simp
  then have nd: "\<not> py_isspace (hd ?d)" by (rule hd_dropWhile)
  have "hd (py_strip s) = last ?e" using e by (simp add: py_strip_def hd_rev)
  also have "\<dots> = last (rev ?d)"
    using e by (metis last_appendR takeWhile_dropWhile_id)
  also have "\<dots> = hd ?d" using d by (simp add: last_rev)
  finally have "\<not> py_isspace (hd (py_strip s))" using nd by simp
  with l show ?thesis by simp
qed

lemma py_strip_subset: "set (py_strip s) \<subseteq> set s"
proof -
  have "set (py_strip s) \<subseteq> set (dropWhile py_isspace s)"
    unfolding py_strip_def using set_dropWhileD by fastforce
  also have "\<dots> \<subseteq> set s" using set_dropWhileD by fastforce
  finally show ?thesis .
qed

lemma py_split_not_Nil: "py_split sep s \<noteq> []"
  by (induction s) (auto split: list.splits)

lemma hd_py_split: "hd (py_split sep s) = takeWhile (\<lambda>c. c \<noteq> sep) s"
  using py_split_not_Nil[of sep]
  by (induction s) (auto split: list.splits)

lemma item0_py_split: "item0 (py_split sep s) = Inr (takeWhile (\<lambda>c. c \<noteq> sep) s)"
  using py_split_not_Nil[of sep s] hd_py_split[of sep s]
  by (cases "py_split sep s") (auto simp: item0_def)

lemma table_name_eq:
  "table_name U s = Inr (filter (\<lambda>c. py_isalnum U c \<or> c = 95) (takeWhile (\<lambda>c. c \<noteq> 46) s))"
  by (simp add: table_name_def item0_py_split)

lemma py_isalnum_ascii: "c < 128 \<Longrightarrow> py_isalnum U c \<or> c = 95 \<Longrightarrow> ascii_ident_char c"
  by (auto simp: py_isalnum_def latin1_isalnum_def ascii_ident_char_def)

lemmas csv_defs =
  simple_read_csv_def header_names_def int_columns_def typed_row_def int_text_def
  int_of_text_def nat_of_digits_def is_digit_def

lemmas to_sql_defs =
  sqlite_to_sql_raises_def list_tables_def ascii_lower_def

lemmas eval_defs =
  py_def load_data_to_db_def to_sql_replace_def table_name_eq py_isalnum_def latin1_isalnum_def
  sanitize_column_names_def sanitize_column_def py_strip_def py_isspace_def py_replace_def
  demo_libs_def csv_defs to_sql_defs store_before_def store_after_def orders_upload_def


section \<open>The column-name sanitizer\<close>

text \<open>
  C4: for every string, the column-name sanitizer trims leading and trailing whitespace
  (what is cut off at either end is whitespace only, and what remains neither starts nor
  ends with whitespace), then replaces each space, hyphen, period and forward slash by an
  underscore and removes the parentheses; so its output contains no space, hyphen,
  period, slash or parenthesis.
\<close>

theorem sanitize_column_trims_replaces_removes:
  "sanitize_column s =
     filter (\<lambda>c. c \<noteq> 40 \<and> c \<noteq> 41)
       (map (\<lambda>c. if c = 32 \<or> c = 45 \<or> c = 46 \<or> c = 47 then 95 else c) (py_strip s)) \<and>
   (\<exists>l r. s = l @ py_strip s @ r \<and> list_all py_isspace l \<and> list_all py_isspace r) \<and>
   (py_strip s \<noteq> [] \<longrightarrow> \<not> py_isspace (hd (py_strip s)) \<and> \<not> py_isspace (last (py_strip s))) \<and>
   set (sanitize_column s) \<inter> {32, 45, 46, 47, 40, 41} = {}"
  using sanitize_column_map_filter[of s] py_strip_trimmed[of s] py_strip_ends[of s]
    sanitize_column_clean[of s]
  by blast

theorem sanitize_column_trims_replaces_removes_witness:
  "py_strip (py ''  Order-Date (UTC/x.y) '') = py ''Order-Date (UTC/x.y)'' \<and>
   sanitize_column (py ''  Order-Date (UTC/x.y) '') = py ''Order_Date_UTC_x_y'' \<and>
   set (sanitize_column (py ''  Order-Date (UTC/x.y) '')) \<inter> {32, 45, 46, 47, 40, 41} = {}"
  using sanitize_column_trims_replaces_removes[of "py ''  Order-Date (UTC/x.y) ''"]
  by (simp add: py_def py_strip_def py_isspace_def)

section \<open>The table name\<close>

lemma spec_strip_extension_no_dot: "46 \<notin> set s \<Longrightarrow> spec_strip_extension s = s"
  by (simp add: spec_strip_extension_def)

lemma takeWhile_no_dot: "46 \<notin> set s \<Longrightarrow> takeWhile (\<lambda>c. c \<noteq> (46::nat)) s = s"
  by (induction s) auto

lemma one_dot_split:
  assumes "length (filter (\<lambda>c. c = (46::nat)) s) \<le> 1" and "46 \<in> set s"
  shows "\<exists>a b. s = a @ 46 # b \<and> 46 \<notin> set a \<and> 46 \<notin> set b"
proof -
  from assms(2) obtain a b where s: "s = a @ 46 # b" and a: "46 \<notin> set a"
    by (meson split_list_first)
  from assms(1) have "filter (\<lambda>c. c = 46) b = []" unfolding s by simp
  then have "46 \<notin> set b" by (auto simp: filter_empty_conv)
  with s a show ?thesis by blast
qed

lemma spec_strip_extension_one_dot:
  assumes "length (filter (\<lambda>c. c = (46::nat)) s) \<le> 1"
  shows "spec_strip_extension s = takeWhile (\<lambda>c. c \<noteq> 46) s"
proof (cases "46 \<in> set s")
  case False
  then show ?thesis by (simp add: spec_strip_extension_no_dot takeWhile_no_dot)
next
  case True
  from one_dot_split[OF assms True] obtain a b where
    s: "s = a @ 46 # b" and a: "46 \<notin> set a" and b: "46 \<notin> set b" by blast
  have 1: "takeWhile (\<lambda>c. c \<noteq> 46) s = a"
    unfolding s using a by (induction a) auto
  have "dropWhile (\<lambda>c. c \<noteq> 46) (rev b @ 46 # rev a) = 46 # rev a"
    using b by (induction b rule: rev_induct) auto
  then have 2: "spec_strip_extension s = a"
    unfolding spec_strip_extension_def s by simp
  from 1 2 show ?thesis by simp
qed

text \<open>
  C2 (as amended): for every file identifier the table name is the text before the
  first period, of which exactly the alphanumeric and underscore characters are kept,
  in order, the others being dropped; for an identifier with at most one period this is
  the text up to the final period, as the specification words it.
\<close>

theorem table_name_first_dot:
  "table_name U s =
     Inr (filter (\<lambda>c. py_isalnum U c \<or> c = 95) (takeWhile (\<lambda>c. c \<noteq> 46) s)) \<and>
   (length (filter (\<lambda>c. c = 46) s) \<le> 1 \<longrightarrow> table_name U s = Inr (spec_table_name U s))"
  by (simp add: table_name_eq spec_table_name_def spec_strip_extension_one_dot)

theorem table_name_first_dot_witness:
  "length (filter (\<lambda>c. c = 46) (py ''Sales Data.csv'')) \<le> 1 \<and>
   table_name (\<lambda>_. False) (py ''Sales Data.csv'') = Inr (py ''SalesData'') \<and>
   spec_table_name (\<lambda>_. False) (py ''Sales Data.csv'') = py ''SalesData''"
  using table_name_first_dot[of "\<lambda>_. False" "py ''Sales Data.csv''"]
  by (auto simp: py_def py_isalnum_def latin1_isalnum_def)

text \<open>
  The claim as stated fails on a name with an interior period: the source keeps the
  text before the first period, the specification's wording the text before the last.
\<close>

theorem table_name_interior_dot_counterexample:
  "table_name (\<lambda>_. False) (py ''my.data.csv'') = Inr (py ''my'') \<and>
   spec_table_name (\<lambda>_. False) (py ''my.data.csv'') = py ''mydata''"
  by (simp add: py_def table_name_eq spec_table_name_def spec_strip_extension_def
      py_isalnum_def latin1_isalnum_def)

text \<open>
  C3 (as amended): for every input string the output of the table-name sanitizer
  contains only characters that are alphanumeric in Python's sense (\<open>str.isalnum\<close>, which
  is true of non-ASCII letters and digits too) or the underscore; when the input is
  ASCII, the output contains only characters of \<open>[A-Za-z0-9_]\<close>.
\<close>

theorem table_name_alnum_or_underscore:
  assumes "table_name U s = Inr t"
  shows "list_all (\<lambda>c. py_isalnum U c \<or> c = 95) t \<and>
         (list_all (\<lambda>c. c < 128) s \<longrightarrow> list_all ascii_ident_char t)"
proof -
  from assms have t: "t = filter (\<lambda>c. py_isalnum U c \<or> c = 95) (takeWhile (\<lambda>c. c \<noteq> 46) s)"
    by (simp add: table_name_eq)
  have "list_all (\<lambda>c. py_isalnum U c \<or> c = 95) t"
    unfolding t by (simp add: list_all_iff)
  moreover have "list_all (\<lambda>c. c < 128) s \<longrightarrow> list_all ascii_ident_char t"
    unfolding t list_all_iff using py_isalnum_ascii
    by (auto dest: set_takeWhileD)
  ultimately show ?thesis by simp
qed

theorem table_name_alnum_or_underscore_witness:
  "table_name (\<lambda>_. False) (py ''Q3 report-v2.csv'') = Inr (py ''Q3reportv2'') \<and>
   list_all (\<lambda>c. c < 128) (py ''Q3 report-v2.csv'') \<and>
   list_all ascii_ident_char (py ''Q3reportv2'')"
proof -
  have h: "table_name (\<lambda>_. False) (py ''Q3 report-v2.csv'') = Inr (py ''Q3reportv2'')"
    by (simp add: py_def table_name_eq py_isalnum_def latin1_isalnum_def)
  have a: "list_all (\<lambda>c. c < 128) (py ''Q3 report-v2.csv'')"
    by (simp add: py_def)
  from table_name_alnum_or_underscore[OF h] a h show ?thesis by simp
qed

text \<open>
  The claim as stated fails on a Latin-1 letter: U+00E9 (e with acute accent) is
  alphanumeric for Python and is kept, and it is not in \<open>[A-Za-z0-9_]\<close>.
\<close>

theorem table_name_non_ascii_counterexample:
  "table_name (\<lambda>_. False) (py ''caf'' @ 233 # py ''.csv'') = Inr (py ''caf'' @ [233]) \<and>
   \<not> ascii_ident_char 233"
  by (simp add: py_def table_name_eq py_isalnum_def latin1_isalnum_def ascii_ident_char_def)

section \<open>The loader\<close>

lemma map_of_dropped: "map_of (filter (\<lambda>(n, _). n \<noteq> tn) conn) tn = None"
  by (induction conn) auto

lemma filter_same_dropped:
  "filter (\<lambda>(n, _). n = tn) (filter (\<lambda>(n, _). n \<noteq> tn) conn) = []"
  by (induction conn) auto

lemma filter_other_dropped:
  "filter (\<lambda>(n, _). n \<noteq> tn) (filter (\<lambda>(n, _). n \<noteq> tn) conn) =
   filter (\<lambda>(n, _). n \<noteq> tn) conn"
  by (induction conn) auto

lemma load_data_to_db_success:
  assumes "load_data_to_db L f conn = ((Some t, None), conn')"
  shows "\<exists>df. read_csv L (content f) = Inr df \<and> table_name (alnum_ext L) (name f) = Inr t \<and>
           to_sql_raises L t (sanitize_column_names df) conn = None \<and>
           conn' = filter (\<lambda>(n, _). n \<noteq> t) conn @ [(t, sanitize_column_names df)]"
  using assms
  by (auto simp: load_data_to_db_def to_sql_replace_def
           split: sum.splits option.splits prod.splits)

lemma load_orders_upload:
  "load_data_to_db demo_libs orders_upload store_before = ((Some (py ''orders''), None), store_after)"
  by (simp add: eval_defs)

lemma read_orders_upload:
  "read_csv demo_libs (content orders_upload) =
     Inr \<lparr>columns = [py ''Day'', py ''Qty (kg)''], rows = [[TextCell (py ''Mon''), IntCell 7]]\<rparr>"
  by (simp add: eval_defs)

text \<open>
  The instance at work: a repeated header is renamed by the parser before it is
  sanitized, and a file name without any identifier character is refused by \<open>to_sql\<close>.
\<close>

lemma load_repeated_header:
  "load_data_to_db demo_libs \<lparr>name = py ''t.csv'', content = py ''a,a\<newline>1,x\<newline>''\<rparr> [] =
     ((Some (py ''t''), None),
      [(py ''t'', \<lparr>columns = [py ''a'', py ''a_1''],
                    rows = [[IntCell 1, TextCell (py ''x'')]]\<rparr>)])"
  by (simp add: eval_defs)

lemma load_empty_table_name:
  "load_data_to_db demo_libs \<lparr>name = py ''--.csv'', content = py ''a\<newline>1\<newline>''\<rparr> store_before =
     ((None, Some (py ''Empty table or column name specified'')), store_before)"
  by (simp add: eval_defs)

text \<open>
  C1: whatever the store holds, a load that succeeds under a table name leaves exactly
  one table of that name in the store, and it is the newly parsed frame with its headers
  sanitized and its rows as parsed: a table registered before under the name is replaced
  as a whole, not merged or appended to, and the tables of other names are as before.
\<close>

theorem load_replaces_table:
  assumes "load_data_to_db L f conn = ((Some t, None), conn')"
  shows "\<exists>df. read_csv L (content f) = Inr df \<and>
           filter (\<lambda>(n, _). n = t) conn' = [(t, sanitize_column_names df)] \<and>
           map_of conn' t = Some (sanitize_column_names df) \<and>
           rows (sanitize_column_names df) = rows df \<and>
           filter (\<lambda>(n, _). n \<noteq> t) conn' = filter (\<lambda>(n, _). n \<noteq> t) conn"
proof -
  from load_data_to_db_success[OF assms] obtain df where
    df: "read_csv L (content f) = Inr df" and
    c': "conn' = filter (\<lambda>(n, _). n \<noteq> t) conn @ [(t, sanitize_column_names df)]"
    by blast
  have "filter (\<lambda>(n, _). n = t) conn' = [(t, sanitize_column_names df)]"
    unfolding c' by (simp add: filter_same_dropped del: filter_filter)
  moreover have "map_of conn' t = Some (sanitize_column_names df)"
    unfolding c' by (simp add: map_of_dropped map_add_def)
  moreover have "rows (sanitize_column_names df) = rows df"
    by (simp add: sanitize_column_names_def)
  moreover have "filter (\<lambda>(n, _). n \<noteq> t) conn' = filter (\<lambda>(n, _). n \<noteq> t) conn"
    unfolding c' by (simp add: filter_other_dropped del: filter_filter)
  ultimately show ?thesis using df by blast
qed

theorem load_replaces_table_witness:
  "load_data_to_db demo_libs orders_upload store_before =
     ((Some (py ''orders''), None), store_after) \<and>
   map_of store_before (py ''orders'') =
     Some \<lparr>columns = [py ''Order_Date'', py ''Amount''],
           rows = [[TextCell (py ''2024-01-01''), IntCell 10],
                   [TextCell (py ''2024-01-02''), IntCell 20]]\<rparr> \<and>
   filter (\<lambda>(n, _). n = py ''orders'') store_after =
     [(py ''orders'',
       \<lparr>columns = [py ''Day'', py ''Qty_kg''], rows = [[TextCell (py ''Mon''), IntCell 7]]\<rparr>)] \<and>
   filter (\<lambda>(n, _). n \<noteq> py ''orders'') store_after =
     filter (\<lambda>(n, _). n \<noteq> py ''orders'') store_before"
proof -
  from load_replaces_table[OF load_orders_upload] obtain df where
    df: "read_csv demo_libs (content orders_upload) = Inr df" and
    one: "filter (\<lambda>(n, _). n = py ''orders'') store_after =
            [(py ''orders'', sanitize_column_names df)]" and
    rest: "filter (\<lambda>(n, _). n \<noteq> py ''orders'') store_after =
             filter (\<lambda>(n, _). n \<noteq> py ''orders'') store_before"
    by blast
  from df read_orders_upload have
    "df = \<lparr>columns = [py ''Day'', py ''Qty (kg)''], rows = [[TextCell (py ''Mon''), IntCell 7]]\<rparr>"
    by simp
  then have "sanitize_column_names df =
      \<lparr>columns = [py ''Day'', py ''Qty_kg''], rows = [[TextCell (py ''Mon''), IntCell 7]]\<rparr>"
    by (simp add: eval_defs)
  moreover have "map_of store_before (py ''orders'') =
     Some \<lparr>columns = [py ''Order_Date'', py ''Amount''],
           rows = [[TextCell (py ''2024-01-01''), IntCell 10],
                   [TextCell (py ''2024-01-02''), IntCell 20]]\<rparr>"
    by (simp add: store_before_def)
  ultimately show ?thesis using one rest load_orders_upload by simp
qed

text \<open>
  C5: for every input, \<open>load_data_to_db\<close> returns one of two shapes and nothing else:
  no table name with the message of the exception, when parsing or registration
  raised, and the table name with no error otherwise. The model has no other outcome:
  every step of the body is inside the \<open>try\<close>.
\<close>

theorem load_data_to_db_result:
  "fst (load_data_to_db L f conn) =
     (case read_csv L (content f) of
        Inl m \<Rightarrow> (None, Some m)
      | Inr df \<Rightarrow>
          (case to_sql_raises L
                  (filter (\<lambda>c. py_isalnum (alnum_ext L) c \<or> c = 95)
                     (takeWhile (\<lambda>c. c \<noteq> 46) (name f)))
                  (sanitize_column_names df) conn of
             Some (m, conn') \<Rightarrow> (None, Some m)
           | None \<Rightarrow>
               (Some (filter (\<lambda>c. py_isalnum (alnum_ext L) c \<or> c = 95)
                        (takeWhile (\<lambda>c. c \<noteq> 46) (name f))),
                None))) \<and>
   ((\<exists>t. fst (load_data_to_db L f conn) = (Some t, None)) \<or>
    (\<exists>m. fst (load_data_to_db L f conn) = (None, Some m)))"
  by (auto simp: load_data_to_db_def to_sql_replace_def table_name_eq
           split: sum.splits option.splits prod.splits)

theorem load_data_to_db_result_witness:
  "fst (load_data_to_db demo_libs \<lparr>name = py ''empty.csv'', content = []\<rparr> store_before) =
     (None, Some (py ''No columns to parse from file'')) \<and>
   fst (load_data_to_db demo_libs orders_upload store_before) = (Some (py ''orders''), None)"
  using load_data_to_db_result[of demo_libs "\<lparr>name = py ''empty.csv'', content = []\<rparr>" store_before]
    load_data_to_db_result[of demo_libs orders_upload store_before]
  by (simp add: eval_defs)

text \<open>
  C10: sanitizing the headers of a parsed table keeps the number of columns and their
  order, each header being mapped where it stands, and leaves the rows untouched.
\<close>

theorem sanitize_column_names_keeps_shape:
  "length (columns (sanitize_column_names df)) = length (columns df) \<and>
   (\<forall>i < length (columns df).
      columns (sanitize_column_names df) ! i = sanitize_column (columns df ! i)) \<and>
   rows (sanitize_column_names df) = rows df"
  by (simp add: sanitize_column_names_def)

theorem sanitize_column_names_keeps_shape_witness:
  "length (columns (sanitize_column_names
      \<lparr>columns = [py ''Day'', py ''Qty (kg)''], rows = [[py ''Mon'', py ''7'']]\<rparr>)) = 2 \<and>
   columns (sanitize_column_names
      \<lparr>columns = [py ''Day'', py ''Qty (kg)''], rows = [[py ''Mon'', py ''7'']]\<rparr>) ! 1 = py ''Qty_kg'' \<and>
   rows (sanitize_column_names
      \<lparr>columns = [py ''Day'', py ''Qty (kg)''], rows = [[py ''Mon'', py ''7'']]\<rparr>) = [[py ''Mon'', py ''7'']]"
  using sanitize_column_names_keeps_shape
    [of "\<lparr>columns = [py ''Day'', py ''Qty (kg)''], rows = [[py ''Mon'', py ''7'']]\<rparr>"]
  by (simp add: eval_defs)

text \<open>
  The sidebar loop calls the loader only for a file whose name is not yet in
  \<open>uploaded_files_list\<close>: a run in which the uploader holds \<open>orders.csv\<close> again leaves
  the store as it is.
\<close>

lemma process_files_listed:
  "name file \<in> set lst \<Longrightarrow> process_files L (file # files) lst conn = process_files L files lst conn"
  by simp

lemma sidebar_same_name_again:
  "sidebar demo_libs [orders_upload]
     \<lparr>db_conn = Some store_before, uploaded_files_list = Some [py ''orders.csv'']\<rparr> =
   ((\<lparr>db_conn = Some store_before, uploaded_files_list = Some [py ''orders.csv'']\<rparr>, []),
    Expanders [(py ''orders'', [py ''Order_Date'', py ''Amount'']), (py ''customers'', [py ''id''])])"
  by (simp add: sidebar_def session_start_def Let_def orders_upload_def schema_viewer_def
      describe_def list_tables_def table_info_def store_before_def py_def demo_libs_def
      demo_table_info_raises_def reserved_words_def ascii_lower_def)







text \<open>
  C9: both sanitizers are functions of the input string alone and give a result for
  every string. The table name never fails (the subscript after \<open>split\<close> always finds a
  first piece) and is determined by the file name, whatever the store and the file's
  content; the registered headers are determined by the parsed headers. The empty
  string gives the empty identifier; a file name without any identifier character
  gives the empty table name; a header of whitespace only gives the empty identifier;
  a header made of the six treated characters gives an identifier of underscores only,
  possibly empty.
\<close>

theorem sanitizers_total_deterministic:
  "(\<exists>!t. table_name U s = Inr t) \<and>
   (load_data_to_db L f conn = ((Some t1, None), conn1) \<and>
    load_data_to_db L f' conn' = ((Some t2, None), conn2) \<and> name f = name f' \<longrightarrow> t1 = t2) \<and>
   (columns df = columns df' \<longrightarrow>
      columns (sanitize_column_names df) = columns (sanitize_column_names df')) \<and>
   table_name U [] = Inr [] \<and>
   sanitize_column [] = [] \<and>
   (list_all (\<lambda>c. \<not> (py_isalnum U c \<or> c = 95)) s \<longrightarrow> table_name U s = Inr []) \<and>
   (list_all py_isspace w \<longrightarrow> sanitize_column w = []) \<and>
   (list_all (\<lambda>c. c \<in> {32, 45, 46, 47, 40, 41}) h \<longrightarrow>
      list_all (\<lambda>c. c = 95) (sanitize_column h))"
proof -
  have "\<exists>!t. table_name U s = Inr t"
    by (simp add: table_name_eq)
  moreover have "load_data_to_db L f conn = ((Some t1, None), conn1) \<and>
      load_data_to_db L f' conn' = ((Some t2, None), conn2) \<and> name f = name f' \<longrightarrow> t1 = t2"
    using load_data_to_db_success[of L f conn t1 conn1]
      load_data_to_db_success[of L f' conn' t2 conn2]
    by auto
  moreover have "columns df = columns df' \<longrightarrow>
      columns (sanitize_column_names df) = columns (sanitize_column_names df')"
    by (simp add: sanitize_column_names_def)
  moreover have "table_name U [] = Inr []"
    by (simp add: table_name_eq)
  moreover have "sanitize_column [] = []"
    by (simp add: sanitize_column_def py_strip_def py_replace_def)
  moreover have "list_all (\<lambda>c. \<not> (py_isalnum U c \<or> c = 95)) s \<longrightarrow> table_name U s = Inr []"
    by (auto simp: table_name_eq filter_empty_conv list_all_iff dest: set_takeWhileD)
  moreover have "list_all py_isspace w \<longrightarrow> sanitize_column w = []"
  proof
    assume "list_all py_isspace w"
    then have d: "dropWhile py_isspace w = []" by (induction w) simp_all
    have "py_strip w = []" unfolding py_strip_def d by simp
    then show "sanitize_column w = []" by (simp add: sanitize_column_map_filter)
  qed
  moreover have "list_all (\<lambda>c. c \<in> {32, 45, 46, 47, 40, 41}) h \<longrightarrow>
      list_all (\<lambda>c. c = 95) (sanitize_column h)"
  proof
    assume a: "list_all (\<lambda>c. c \<in> {32, 45, 46, 47, 40, 41}) h"
    have "\<And>c. c \<in> set (py_strip h) \<Longrightarrow> c \<in> {32, 45, 46, 47, 40, 41}"
      using a py_strip_subset[of h] by (auto simp: list_all_iff)
    then show "list_all (\<lambda>c. c = 95) (sanitize_column h)"
      unfolding sanitize_column_map_filter list_all_iff by auto
  qed
  ultimately show ?thesis by blast
qed


theorem sanitizers_total_deterministic_witness:
  "table_name (\<lambda>_. False) (py ''-- ().csv'') = Inr [] \<and>
   sanitize_column (py ''   '') = [] \<and>
   sanitize_column (py '' -(/). '') = py ''___'' \<and>
   list_all (\<lambda>c. c = 95) (sanitize_column (py '' -(/). ''))"
  using sanitizers_total_deterministic[of "\<lambda>_. False" "py ''-- ().csv''" demo_libs
      orders_upload store_before "py ''orders''" store_after orders_upload store_before
      "py ''orders''" store_after
      "\<lparr>columns = [py ''a''], rows = [[py ''1'']]\<rparr>"
      "\<lparr>columns = [py ''a''], rows = [[py ''2'']]\<rparr>"
      "py ''   ''" "py '' -(/). ''"]
  by (simp add: py_def table_name_eq py_isalnum_def latin1_isalnum_def sanitize_column_def
      py_strip_def py_isspace_def py_replace_def)

section \<open>The schema viewer and the reset\<close>

lemma session_start_fresh:
  "session_start \<lparr>db_conn = None, uploaded_files_list = None\<rparr> =
     (\<lparr>db_conn = Some [], uploaded_files_list = Some []\<rparr>, [])"
  by (simp add: session_start_def)

lemma session_start_cleared:
  "session_start (clear_database st) = (\<lparr>db_conn = Some [], uploaded_files_list = Some []\<rparr>, [])"
  by (simp add: session_start_def clear_database_def)

text \<open>
  A table whose name is a reserved word stops the viewer with an error.
\<close>

lemma schema_viewer_reserved_word:
  "schema_viewer demo_libs [(py ''order'', \<lparr>columns = [py ''id''], rows = [[IntCell 1]]\<rparr>)] =
     DbError [] (db_error_prefix @ py ''Execution failed on sql '' @ 39 #
       py ''PRAGMA table_info(order)'' @ 39 # py '': near '' @ 34 # py ''order'' @ 34 #
       py '': syntax error'')"
  by (simp add: schema_viewer_def describe_def list_tables_def demo_libs_def
      demo_table_info_raises_def reserved_words_def ascii_lower_def execution_failed_def py_def)

text \<open>
  C7 (as amended): in a session that has no state yet, the store is created empty and
  its description is the empty mapping, shown as a notice and not as an error. The
  reset discards every registered table: the run of the script that follows it starts
  from an empty store and an empty list, exactly as the first run of a new session
  does, so what the schema viewer then shows is what the upload loop of that run loads
  from the files the uploader still holds, and the empty mapping when it holds none.
\<close>

theorem reset_then_describe:
  "snd (session_start \<lparr>db_conn = None, uploaded_files_list = None\<rparr>) = [] \<and>
   describe L [] = ([], None) \<and>
   schema_viewer L [] = NoTablesFound \<and>
   snd (session_start (clear_database st)) = [] \<and>
   sidebar L files (clear_database st) =
     sidebar L files \<lparr>db_conn = None, uploaded_files_list = None\<rparr> \<and>
   sidebar L [] (clear_database st) =
     ((\<lparr>db_conn = Some [], uploaded_files_list = Some []\<rparr>, []), NoTablesFound)"
  by (simp add: session_start_fresh session_start_cleared sidebar_def describe_def
      schema_viewer_def list_tables_def)

theorem reset_then_describe_witness:
  "describe demo_libs store_before =
     ([(py ''orders'', [py ''Order_Date'', py ''Amount'']), (py ''customers'', [py ''id''])],
      None) \<and>
   sidebar demo_libs []
     (clear_database
        \<lparr>db_conn = Some store_before, uploaded_files_list = Some [py ''orders.csv'']\<rparr>) =
     ((\<lparr>db_conn = Some [], uploaded_files_list = Some []\<rparr>, []), NoTablesFound)"
proof -
  let ?st = "\<lparr>db_conn = Some store_before, uploaded_files_list = Some [py ''orders.csv'']\<rparr>"
  have before: "describe demo_libs store_before =
     ([(py ''orders'', [py ''Order_Date'', py ''Amount'']), (py ''customers'', [py ''id''])],
      None)"
    by (simp add: describe_def list_tables_def table_info_def store_before_def py_def
        demo_libs_def demo_table_info_raises_def reserved_words_def ascii_lower_def)
  from reset_then_describe[of demo_libs ?st "[]"]
  have "sidebar demo_libs [] (clear_database ?st) =
     ((\<lparr>db_conn = Some [], uploaded_files_list = Some []\<rparr>, []), NoTablesFound)"
    by blast
  with before show ?thesis by (rule conjI)
qed

text \<open>
  The claim as stated fails when the uploader still holds a file at the reset: the run
  that follows loads it into the empty store, and the schema viewer shows its table.
\<close>

theorem reset_reloads_held_file_counterexample:
  "sidebar demo_libs [orders_upload]
     (clear_database
        \<lparr>db_conn = Some store_before, uploaded_files_list = Some [py ''orders.csv'']\<rparr>) =
   ((\<lparr>db_conn = Some [(py ''orders'',
         \<lparr>columns = [py ''Day'', py ''Qty_kg''], rows = [[TextCell (py ''Mon''), IntCell 7]]\<rparr>)],
      uploaded_files_list = Some [py ''orders.csv'']\<rparr>, [Created (py ''orders'')]),
    Expanders [(py ''orders'', [py ''Day'', py ''Qty_kg''])])"
  by (simp add: sidebar_def session_start_def clear_database_def Let_def schema_viewer_def
      describe_def table_info_def demo_table_info_raises_def reserved_words_def eval_defs)


section \<open>The query runner\<close>

text \<open>
  C6 (as amended): when the engine raises on a query that is run, the runner does not
  crash: it reports the error, the engine's message standing unchanged after the fixed
  prefix, and it does nothing to the store itself, which is left as the engine left it.
  So the set of registered tables is unchanged whenever the engine's failed call left
  it unchanged, as for a \<open>SELECT\<close> on a table that does not exist.
\<close>

theorem execute_reports_failure:
  assumes "read_sql_query L q conn = (Inl m, conn')" and "run_btn \<or> q \<noteq> []"
  shows "execute L run_btn q conn = (Some (SqlError (sql_error_prefix @ m)), conn') \<and>
         (list_tables conn' = list_tables conn \<longrightarrow>
            list_tables (snd (execute L run_btn q conn)) = list_tables conn)"
  using assms by (auto simp: execute_def)

lemmas engine_defs =
  py_def demo_libs_def two_statement_engine_def execution_failed_def no_result_set_def
  py_isspace_def store_before_def

theorem execute_reports_failure_witness:
  "execute demo_libs False (py ''SELECT * FROM nonexistent'') store_before =
     (Some (SqlError (sql_error_prefix @
        py ''Execution failed on sql '' @ 39 # py ''SELECT * FROM nonexistent'' @ 39 #
        py '': no such table: nonexistent'')), store_before) \<and>
   list_tables (snd (execute demo_libs False (py ''SELECT * FROM nonexistent'') store_before)) =
     list_tables store_before"
proof -
  have h: "read_sql_query demo_libs (py ''SELECT * FROM nonexistent'') store_before =
     (Inl (py ''Execution failed on sql '' @ 39 # py ''SELECT * FROM nonexistent'' @ 39 #
        py '': no such table: nonexistent''), store_before)"
    by (simp add: engine_defs)
  have g: "False \<or> py ''SELECT * FROM nonexistent'' \<noteq> []"
    by (simp add: py_def)
  from execute_reports_failure[OF h g] show ?thesis by simp
qed

text \<open>
  The claim as stated fails for a statement that the engine executes before it raises:
  the runner reports an error for \<open>DROP TABLE orders\<close>, and the table is gone.
\<close>

theorem execute_drop_table_counterexample:
  "execute demo_libs True (py ''DROP TABLE orders'') store_before =
     (Some (SqlError (sql_error_prefix @
        39 # py ''NoneType'' @ 39 # py '' object is not iterable'')),
      [(py ''customers'', \<lparr>columns = [py ''id''], rows = [[IntCell 1]]\<rparr>)]) \<and>
   list_tables store_before = [py ''orders'', py ''customers''] \<and>
   list_tables (snd (execute demo_libs True (py ''DROP TABLE orders'') store_before)) =
     [py ''customers'']"
  by (simp add: execute_def engine_defs list_tables_def)

end
